theory Spec2Isabelle
  imports Main
begin

section \<open>JavaScript strings\<close>

text \<open>
  The builder works on JavaScript strings. They are modelled as character lists, a
  character standing for the UTF-16 code unit of the same number, so the strings of the
  model are the JavaScript strings whose code units are all below 256. The string
  methods the builder calls are written out with the results the language gives them,
  including the results outside the ordinary range (\<open>indexOf\<close> returning \<open>-1\<close>,
  \<open>substring\<close> clamping and swapping its arguments).
\<close>

fun startsWith :: "string \<Rightarrow> string \<Rightarrow> bool" where
  "startsWith s [] = True"
| "startsWith [] (p # ps) = False"
| "startsWith (c # cs) (p # ps) = (c = p \<and> startsWith cs ps)"

fun searchFrom :: "string \<Rightarrow> string \<Rightarrow> nat \<Rightarrow> int" where
  "searchFrom [] sub k = (if sub = [] then int k else - 1)"
| "searchFrom (c # cs) sub k =
     (if startsWith (c # cs) sub then int k else searchFrom cs sub (Suc k))"

definition indexOf :: "string \<Rightarrow> string \<Rightarrow> int \<Rightarrow> int" where
  \<comment> \<open>\<open>s.indexOf(sub, pos)\<close>: first occurrence at or after \<open>pos\<close>, or \<open>-1\<close>.\<close>
  "indexOf s sub pos =
     (let p = nat (max 0 (min pos (int (length s)))) in searchFrom (drop p s) sub p)"

definition lastIndexOf :: "string \<Rightarrow> string \<Rightarrow> int" where
  \<comment> \<open>\<open>s.lastIndexOf(sub)\<close>: last occurrence, or \<open>-1\<close>.\<close>
  "lastIndexOf s sub =
     (case filter (\<lambda>k. startsWith (drop k s) sub) (rev [0..<Suc (length s)]) of
        [] \<Rightarrow> - 1
      | k # _ \<Rightarrow> int k)"

definition substring :: "string \<Rightarrow> int \<Rightarrow> int \<Rightarrow> string" where
  \<comment> \<open>\<open>s.substring(start, end)\<close>: both indices are clamped to \<open>0..length\<close> and
      swapped when the first is the larger.\<close>
  "substring s start end =
     (let n = int (length s);
          a = max 0 (min start n);
          b = max 0 (min end n);
          lo = min a b;
          hi = max a b
      in take (nat (hi - lo)) (drop (nat lo) s))"

definition substringFrom :: "string \<Rightarrow> int \<Rightarrow> string" where
  \<comment> \<open>\<open>s.substring(start)\<close>\<close>
  "substringFrom s start = substring s start (int (length s))"

fun join :: "string \<Rightarrow> string list \<Rightarrow> string" where
  "join sep [] = []"
| "join sep [x] = x"
| "join sep (x # y # ys) = x @ sep @ join sep (y # ys)"

fun split :: "char \<Rightarrow> string \<Rightarrow> string list" where
  \<comment> \<open>\<open>s.split(sep)\<close> for a one-character separator; the result is never empty.\<close>
  "split sep [] = [[]]"
| "split sep (c # cs) =
     (if c = sep then [] # split sep cs
      else (case split sep cs of [] \<Rightarrow> [[c]] | p # ps \<Rightarrow> (c # p) # ps))"

definition isWhiteSpace :: "char \<Rightarrow> bool" where
  \<comment> \<open>the white space and line terminator code units below 256: tab, line feed,
      vertical tab, form feed, carriage return, space, no-break space\<close>
  "isWhiteSpace c =
     (c \<in> set [CHR 0x09, CHR 0x0A, CHR 0x0B, CHR 0x0C, CHR 0x0D, CHR 0x20, CHR 0xA0])"

definition trim :: "string \<Rightarrow> string" where
  "trim s = rev (dropWhile isWhiteSpace (rev (dropWhile isWhiteSpace s)))"

definition isDigit :: "char \<Rightarrow> bool" where
  "isDigit c = (c \<in> set ''0123456789'')"

definition digitValue :: "char \<Rightarrow> int" where
  "digitValue c = int (of_char c) - 48"

fun digitsValue :: "int \<Rightarrow> string \<Rightarrow> int" where
  "digitsValue acc [] = acc"
| "digitsValue acc (c # cs) = digitsValue (acc * 10 + digitValue c) cs"

text \<open>
  A JavaScript value as far as \<open>replaceExpires\<close> can see one: a number, an infinity,
  the not-a-number value, a string, or \<open>undefined\<close>. The numbers that occur are doubles
  with an integer value; \<open>JNumber n\<close> is the double whose value is \<open>n\<close>, and \<open>toNumber\<close>
  rounds an integer to the nearest double, a tie going to the even significand and a
  magnitude of \<open>2^1024\<close> or more to an infinity. Negative zero is \<open>JNumber 0\<close>: the
  builder only tests it for truth.
\<close>

datatype jsvalue = JNumber int | JInfinity | JNegInfinity | JNaN | JString string | JUndefined

fun bitLength :: "nat \<Rightarrow> nat" where
  "bitLength n = (if n = 0 then 0 else Suc (bitLength (n div 2)))"

declare bitLength.simps [simp del]

definition roundToDouble :: "nat \<Rightarrow> nat" where
  \<comment> \<open>a magnitude rounded to 53 significant bits\<close>
  "roundToDouble m =
     (if m < 2 ^ 53 then m
      else
        (let e = bitLength m - 53;
             q = m div 2 ^ e;
             r = m mod 2 ^ e;
             half = 2 ^ (e - 1)
         in (if r > half \<or> (r = half \<and> odd q) then q + 1 else q) * 2 ^ e))"

definition toNumber :: "int \<Rightarrow> jsvalue" where
  "toNumber n =
     (let m = roundToDouble (nat \<bar>n\<bar>)
      in if m \<ge> 2 ^ 1024 then (if n < 0 then JNegInfinity else JInfinity)
         else JNumber (if n < 0 then - int m else int m))"

definition truthy :: "jsvalue \<Rightarrow> bool" where
  "truthy v = (case v of
       JNumber n \<Rightarrow> n \<noteq> 0
     | JInfinity \<Rightarrow> True
     | JNegInfinity \<Rightarrow> True
     | JNaN \<Rightarrow> False
     | JString s \<Rightarrow> s \<noteq> []
     | JUndefined \<Rightarrow> False)"

definition parseInt :: "string \<Rightarrow> jsvalue" where
  \<comment> \<open>\<open>parseInt(s, 10)\<close>: leading white space, an optional sign, then the longest run
      of decimal digits, whose value is rounded to a double; \<open>NaN\<close> when there is no
      digit.\<close>
  "parseInt s =
     (let t = dropWhile isWhiteSpace s;
          sgn = (case t of c # _ \<Rightarrow> if c = CHR ''-'' then - 1 else 1 | [] \<Rightarrow> 1);
          u = (case t of c # r \<Rightarrow> if c = CHR ''-'' \<or> c = CHR ''+'' then r else t | [] \<Rightarrow> []);
          ds = takeWhile isDigit u
      in if ds = [] then JNaN else toNumber (sgn * digitsValue 0 ds))"

definition times :: "jsvalue \<Rightarrow> int \<Rightarrow> jsvalue" where
  \<comment> \<open>the product of the result of \<open>parseInt\<close> and a positive integer constant: the
      exact product rounded to a double; an infinity and \<open>NaN\<close> stay what they are\<close>
  "times v k =
     (case v of
        JNumber n \<Rightarrow> toNumber (n * k)
      | JInfinity \<Rightarrow> JInfinity
      | JNegInfinity \<Rightarrow> JNegInfinity
      | _ \<Rightarrow> JNaN)"


section \<open>Revisions\<close>

text \<open>
  A revision record as \<open>revision.json\<close> holds it. The record the build makes up when the
  file is missing has a \<open>timeUpdated\<close> and no \<open>hash\<close>, hence the option.
\<close>

record revision =
  timeUpdated :: int
  hash :: "string option"

text \<open>
  \<open>makeRevision\<close> reads the clock once (\<open>new Date().getTime()\<close>); the reading is the
  argument \<open>now\<close>. A null \<open>currentRevision\<close> is \<open>None\<close>.
\<close>

definition makeRevision :: "int \<Rightarrow> revision option \<Rightarrow> string \<Rightarrow> revision" where
  "makeRevision now currentRevision h =
     (let result = \<lparr>timeUpdated = now, hash = Some h\<rparr>
      in case currentRevision of
           None \<Rightarrow> result
         | Some cur \<Rightarrow>
             if hash cur = hash result then result\<lparr>timeUpdated := timeUpdated cur\<rparr>
             else result)"

text \<open>
  The digest (\<open>md5\<close> with \<open>asString\<close>) and the base64 encoding of a buffer come from
  libraries outside the repository; both are parameters.
\<close>

definition lastModifiedMarker :: string where
  "lastModifiedMarker = ''! Last modified:''"

definition calculateRevisionHash ::
  "(string \<Rightarrow> string) \<Rightarrow> (string \<Rightarrow> string) \<Rightarrow> string list \<Rightarrow> string" where
  "calculateRevisionHash md5 base64 compiled =
     (let data = join [CHR 0x0A] (filter (\<lambda>s. \<not> startsWith s lastModifiedMarker) compiled)
      in trim (base64 (md5 data)))"


section \<open>The expires field\<close>

text \<open>
  \<open>metadata.expires\<close> is a string or absent (\<open>None\<close>). The function returns whatever
  \<open>expires\<close> holds at the end, which need not be a number.
\<close>

definition replaceExpires :: "string option \<Rightarrow> jsvalue" where
  "replaceExpires expires =
     (let e =
        (case expires of
           None \<Rightarrow> JUndefined
         | Some s \<Rightarrow>
             if s = [] then JString s
             else
               (let e1 =
                  (if indexOf s ''day'' 0 > 0 then times (times (times (parseInt s) 24) 60) 60
                   else if indexOf s ''hour'' 0 > 0 then times (times (parseInt s) 60) 60
                   else JString s)
                in if e1 = JNaN then JNumber 86400 else e1))
      in if truthy e then e else JNumber 86400)"


section \<open>Locale folding\<close>

text \<open>
  \<open>parseInfo\<close> returns an object with the fields \<open>id\<close> and \<open>message\<close>; the field names
  carry the prefix \<open>info_\<close> here, \<open>id\<close> being taken.
\<close>

record parsedInfo =
  info_id :: string
  info_message :: string

definition parseInfo :: "string \<Rightarrow> string \<Rightarrow> parsedInfo" where
  "parseInfo str mask' =
     (let searchIndex = indexOf str mask' 0 + int (length mask')
      in \<lparr>info_id = substring str searchIndex (indexOf str ''.'' searchIndex),
          info_message = substringFrom str (lastIndexOf str ''.'' + 1)\<rparr>)"

text \<open>
  A locale directory after reading: its base name and the two parsed files. A parsed file
  is an array of message objects, each given by its entries in the order of
  \<open>Object.keys\<close>; a file that does not exist reads as \<open>null\<close>, which is \<open>None\<close>.
  JavaScript objects are modelled by their own properties, as maps from names; names
  that \<open>Object.prototype\<close> answers for (\<open>__proto__\<close>, \<open>constructor\<close> and the like) are
  not treated specially.
\<close>

datatype propName = Tags | Filters

type_synonym 'v messages = "(string \<times> 'v) list list"

record 'v localeDir =
  localeName :: string
  tagsJson :: "'v messages option"
  filtersJson :: "'v messages option"

type_synonym 'v localization = "string \<rightharpoonup> (string \<rightharpoonup> (string \<rightharpoonup> 'v))"

type_synonym 'v localizations = "propName \<Rightarrow> 'v localization"

definition addMessage ::
  "'v localizations \<Rightarrow> propName \<Rightarrow> string \<Rightarrow> string \<Rightarrow> string \<Rightarrow> 'v \<Rightarrow> 'v localizations" where
  \<comment> \<open>the three assignments of the innermost loop body\<close>
  "addMessage result pn i loc msg v =
     (let byLocale = (case result pn i of None \<Rightarrow> Map.empty | Some x \<Rightarrow> x);
          byMessage = (case byLocale loc of None \<Rightarrow> Map.empty | Some x \<Rightarrow> x)
      in result(pn := (result pn)(i \<mapsto> byLocale(loc \<mapsto> byMessage(msg \<mapsto> v)))))"

definition foldProperty ::
  "string \<Rightarrow> string \<Rightarrow> propName \<Rightarrow> string \<times> 'v \<Rightarrow> 'v localizations \<Rightarrow> 'v localizations" where
  "foldProperty loc prefix pn entry result =
     (let info = parseInfo (fst entry) prefix
      in if info_id info = [] then result
         else addMessage result pn (info_id info) loc (info_message info) (snd entry))"

definition foldItem ::
  "string \<Rightarrow> string \<Rightarrow> propName \<Rightarrow> 'v messages option \<Rightarrow> 'v localizations \<Rightarrow> 'v localizations" where
  "foldItem loc prefix pn file result =
     (case file of
        None \<Rightarrow> result
      | Some messagesJson \<Rightarrow>
          fold (\<lambda>message. fold (foldProperty loc prefix pn) message) messagesJson result)"

definition foldLocaleDir :: "'v localeDir \<Rightarrow> 'v localizations \<Rightarrow> 'v localizations" where
  "foldLocaleDir d result =
     foldItem (localeName d) ''hostlist.'' Filters (filtersJson d)
       (foldItem (localeName d) ''hostlisttag.'' Tags (tagsJson d) result)"

definition loadLocales :: "'v localeDir list \<Rightarrow> 'v localizations" where
  "loadLocales localeDirs = fold foldLocaleDir localeDirs (\<lambda>_. Map.empty)"

definition valueAt ::
  "'v localizations \<Rightarrow> propName \<Rightarrow> string \<Rightarrow> string \<Rightarrow> string \<Rightarrow> 'v option" where
  \<comment> \<open>reading \<open>result[propName][id][locale][field]\<close>, \<open>None\<close> when a level is missing\<close>
  "valueAt result pn i loc fld =
     (case result pn i of
        None \<Rightarrow> None
      | Some byLocale \<Rightarrow> (case byLocale loc of None \<Rightarrow> None | Some byMessage \<Rightarrow> byMessage fld))"


section \<open>The build\<close>

text \<open>Parsed JSON, for the fields the build copies without looking at them.\<close>

datatype json =
  JNull | JBool bool | JNum int | JStr string | JArr "json list" | JObj "(string \<times> json) list"

text \<open>
  \<open>metadata.json\<close> of one list. The field \<open>id\<close> is written \<open>id'\<close>; it is kept as the text
  that the template strings of the build turn it into.
\<close>

record metadata =
  filterId :: json
  id' :: string
  name :: json
  description :: json
  tags :: json
  homepage :: string
  expires :: "string option"
  displayNumber :: json
  timeAdded :: json
  environment :: "string option"
  disabled :: bool

text \<open>The record the build emits for one list; its fields carry the prefix \<open>fm_\<close>.\<close>

record filterMetadata =
  fm_filterId :: json
  fm_id :: string
  fm_name :: json
  fm_description :: json
  fm_tags :: json
  fm_homepage :: string
  fm_expires :: jsvalue
  fm_displayNumber :: json
  fm_downloadUrl :: string
  fm_sourceUrl :: string
  fm_timeAdded :: json
  fm_timeUpdated :: int

record hostlistSource =
  source :: string

record hostlistConfiguration =
  sources :: "hostlistSource list"

record service =
  service_id :: string
  rules :: "string list"

record services =
  blocked_services :: "service list"

record catalog =
  filters :: "filterMetadata list"
  tags' :: json

text \<open>
  The files the build reads back or writes. A constructor stands for one path:
  \<open>RevisionFile d\<close> for \<open>revision.json\<close> in the list directory \<open>d\<close>, \<open>FilterFile d\<close> for
  its \<open>filter.txt\<close>, \<open>AssetsFilterFile n\<close> for the file \<open>n\<close> in the assets directory, and
  the four catalog files there. Files hold the value whose JSON text (or plain text)
  the source writes.
\<close>

datatype path =
  RevisionFile string
| FilterFile string
| AssetsFilterFile string
| ServicesFile
| FiltersMetadataFile
| FiltersMetadataDevFile
| FiltersI18nFile

datatype content =
  Revision revision
| Text string
| Services services
| Catalog catalog
| I18n "json localizations"

text \<open>The disk, and the paths written so far, oldest first.\<close>

record world =
  files :: "path \<rightharpoonup> content"
  written :: "path list"

definition writeFile :: "path \<Rightarrow> content \<Rightarrow> world \<Rightarrow> world" where
  "writeFile p data w = w\<lparr>files := (files w)(p \<mapsto> data), written := written w @ [p]\<rparr>"

text \<open>
  What the build takes from outside the repository: the two library functions of the
  hash, the hostlist compiler and the Mastodon server list compiler. A compiler that
  throws returns \<open>Inl\<close> with the exception's text.
\<close>

record externals =
  md5 :: "string \<Rightarrow> string"
  base64 :: "string \<Rightarrow> string"
  hostlistCompiler :: "hostlistConfiguration \<Rightarrow> string + string list"
  mastodonServerlistCompiler :: "string + string list"

text \<open>
  One list directory as \<open>listFiltersDirs\<close> finds it: its path, its two parsed input
  files, and the two clock readings an iteration can make (the default revision of the
  loop body, and \<open>makeRevision\<close>).
\<close>

record filterDir =
  dir :: string
  metadataJson :: metadata
  configurationJson :: hostlistConfiguration
  clockAtRead :: int
  clockAtMake :: int

datatype error =
  FailedToCompile string string
| Unparseable path
| MastodonCompilerFailed string
| ServicesMissing
| MastodonServiceNotFound

definition HOSTLISTS_URL :: string where
  "HOSTLISTS_URL = ''https://adguardteam.github.io/HostlistsRegistry/assets''"

definition readRevision :: "world \<Rightarrow> filterDir \<Rightarrow> error + revision" where
  \<comment> \<open>\<open>JSON.parse(readFile(revisionFile)) || { timeUpdated: new Date().getTime() }\<close>\<close>
  "readRevision w fd =
     (case files w (RevisionFile (dir fd)) of
        None \<Rightarrow> Inr \<lparr>timeUpdated = clockAtRead fd, hash = None\<rparr>
      | Some (Revision r) \<Rightarrow> Inr r
      | Some _ \<Rightarrow> Inl (Unparseable (RevisionFile (dir fd))))"

definition filterNameOf :: "metadata \<Rightarrow> string" where
  "filterNameOf md = ''filter_'' @ id' md @ ''.txt''"

definition compileHostlist ::
  "externals \<Rightarrow> filterDir \<Rightarrow> revision \<Rightarrow> world \<Rightarrow> world \<times> (error + int)" where
  \<comment> \<open>the block guarded by \<open>!metadata.disabled\<close>; the result is \<open>timeUpdated\<close>\<close>
  "compileHostlist ext fd currentRevision w =
     (if disabled (metadataJson fd) then (w, Inr (timeUpdated currentRevision))
      else
        (case hostlistCompiler ext (configurationJson fd) of
           Inl ex \<Rightarrow> (w, Inl (FailedToCompile (id' (metadataJson fd)) ex))
         | Inr hostlistCompiled \<Rightarrow>
             (let h = calculateRevisionHash (md5 ext) (base64 ext) hostlistCompiled
              in if hash currentRevision \<noteq> Some h then
                   (let newRevision = makeRevision (clockAtMake fd) (Some currentRevision) h;
                        assetsFilterFile = AssetsFilterFile (filterNameOf (metadataJson fd));
                        filterFile = FilterFile (dir fd);
                        content = join [CHR 0x0A] hostlistCompiled;
                        w1 = writeFile (RevisionFile (dir fd)) (Revision newRevision) w;
                        w2 = writeFile assetsFilterFile (Text content) w1;
                        w3 = writeFile filterFile (Text content) w2
                    in (w3, Inr (timeUpdated newRevision)))
                 else (w, Inr (timeUpdated currentRevision)))))"

definition sourceUrlOf :: "hostlistConfiguration \<Rightarrow> metadata \<Rightarrow> string" where
  "sourceUrlOf hostlistConfiguration md =
     (if length (sources hostlistConfiguration) = 1
      then source (sources hostlistConfiguration ! 0)
      else homepage md)"

definition populate :: "filterDir \<Rightarrow> int \<Rightarrow> filterMetadata" where
  "populate fd timeUpd =
     (let md = metadataJson fd
      in \<lparr>fm_filterId = filterId md,
          fm_id = id' md,
          fm_name = name md,
          fm_description = description md,
          fm_tags = tags md,
          fm_homepage = homepage md,
          fm_expires = replaceExpires (expires md),
          fm_displayNumber = displayNumber md,
          fm_downloadUrl = HOSTLISTS_URL @ ''/'' @ filterNameOf md,
          fm_sourceUrl = sourceUrlOf (configurationJson fd) md,
          fm_timeAdded = timeAdded md,
          fm_timeUpdated = timeUpd\<rparr>)"

definition processFilterDir ::
  "externals \<Rightarrow> filterDir \<Rightarrow> world \<Rightarrow> world \<times> (error + filterMetadata)" where
  \<comment> \<open>one iteration of the loop over the list directories\<close>
  "processFilterDir ext fd w =
     (case readRevision w fd of
        Inl e \<Rightarrow> (w, Inl e)
      | Inr currentRevision \<Rightarrow>
          (case compileHostlist ext fd currentRevision w of
             (w', Inl e) \<Rightarrow> (w', Inl e)
           | (w', Inr timeUpd) \<Rightarrow> (w', Inr (populate fd timeUpd))))"

fun processFilterDirs ::
  "externals \<Rightarrow> filterDir list \<Rightarrow> filterMetadata list \<Rightarrow> filterMetadata list \<Rightarrow> world
     \<Rightarrow> world \<times> (error + filterMetadata list \<times> filterMetadata list)" where
  "processFilterDirs ext [] filtersMetadata filtersMetadataDev w =
     (w, Inr (filtersMetadata, filtersMetadataDev))"
| "processFilterDirs ext (fd # fds) filtersMetadata filtersMetadataDev w =
     (case processFilterDir ext fd w of
        (w', Inl e) \<Rightarrow> (w', Inl e)
      | (w', Inr filterMeta) \<Rightarrow>
          processFilterDirs ext fds
            (if environment (metadataJson fd) = Some ''prod''
             then filtersMetadata @ [filterMeta] else filtersMetadata)
            (filtersMetadataDev @ [filterMeta]) w')"

definition findIndex :: "('a \<Rightarrow> bool) \<Rightarrow> 'a list \<Rightarrow> int" where
  "findIndex P xs =
     (case filter (\<lambda>i. P (xs ! i)) [0..<length xs] of [] \<Rightarrow> - 1 | i # _ \<Rightarrow> int i)"

definition readServices :: "world \<Rightarrow> error + services option" where
  \<comment> \<open>\<open>JSON.parse(readFile(...))\<close>: \<open>null\<close> for a missing file\<close>
  "readServices w =
     (case files w ServicesFile of
        None \<Rightarrow> Inr None
      | Some (Services s) \<Rightarrow> Inr (Some s)
      | Some _ \<Rightarrow> Inl (Unparseable ServicesFile))"

definition writeCatalogs ::
  "services \<Rightarrow> filterMetadata list \<Rightarrow> filterMetadata list \<Rightarrow> json \<Rightarrow> json localeDir list
     \<Rightarrow> world \<Rightarrow> world" where
  \<comment> \<open>the four writes that end the build, in the order of the source\<close>
  "writeCatalogs svcs filtersMetadata filtersMetadataDev tagsMetadata localeDirs w =
     (let w1 = writeFile ServicesFile (Services svcs) w;
          w2 = writeFile FiltersMetadataFile
                 (Catalog \<lparr>filters = filtersMetadata, tags' = tagsMetadata\<rparr>) w1;
          w3 = writeFile FiltersMetadataDevFile
                 (Catalog \<lparr>filters = filtersMetadataDev, tags' = tagsMetadata\<rparr>) w2;
          localizations = loadLocales localeDirs
      in writeFile FiltersI18nFile (I18n localizations) w3)"

definition build ::
  "externals \<Rightarrow> filterDir list \<Rightarrow> json \<Rightarrow> json localeDir list \<Rightarrow> world
     \<Rightarrow> world \<times> error option" where
  "build ext filterDirs tagsMetadata localeDirs w =
     (case processFilterDirs ext filterDirs [] [] w of
        (w1, Inl e) \<Rightarrow> (w1, Some e)
      | (w1, Inr (filtersMetadata, filtersMetadataDev)) \<Rightarrow>
          (case readServices w1 of
             Inl e \<Rightarrow> (w1, Some e)
           | Inr svcsRead \<Rightarrow>
               (case mastodonServerlistCompiler ext of
                  Inl ex \<Rightarrow> (w1, Some (MastodonCompilerFailed ex))
                | Inr mastodonServers \<Rightarrow>
                    (case svcsRead of
                       None \<Rightarrow> (w1, Some ServicesMissing)
                     | Some svcs \<Rightarrow>
                         (let mastodonIndex =
                                findIndex (\<lambda>el. service_id el = ''mastodon'') (blocked_services svcs)
                          in if mastodonIndex = - 1 then (w1, Some MastodonServiceNotFound)
                             else
                               (let i = nat mastodonIndex;
                                    mastodonService = (blocked_services svcs ! i)\<lparr>rules := mastodonServers\<rparr>;
                                    svcs' = svcs\<lparr>blocked_services :=
                                                   (blocked_services svcs)[i := mastodonService]\<rparr>
                                in (writeCatalogs svcs' filtersMetadata filtersMetadataDev
                                      tagsMetadata localeDirs w1, None)))))))"


section \<open>Service group translations\<close>

text \<open>
  \<open>groupFileContentByTranslations\<close> builds its result out of objects that it shares
  between properties, so the objects live in a store: an address names an object. An
  object has its own properties, each a JSON value of the input or an address, and a
  prototype: \<open>Object.prototype\<close> for an object literal, and after an assignment to
  \<open>__proto__\<close> possibly \<open>null\<close>, another object of the store, or an object or array of
  the input.
\<close>

datatype property = Value json | Object nat

datatype prototype = ObjectPrototype | NullPrototype | ObjectAt nat | InputObject json

record object =
  own :: "string \<rightharpoonup> property"
  proto :: prototype

record heap =
  objects :: "nat \<rightharpoonup> object"
  fresh :: nat

definition newObject :: "heap \<Rightarrow> nat \<times> heap" where
  \<comment> \<open>the object literal \<open>{}\<close>\<close>
  "newObject h =
     (fresh h,
      h\<lparr>objects := (objects h)(fresh h \<mapsto> \<lparr>own = Map.empty, proto = ObjectPrototype\<rparr>),
        fresh := Suc (fresh h)\<rparr>)"

definition hasOwnProto :: "json \<Rightarrow> bool" where
  \<comment> \<open>whether a parsed JSON value has an own property called \<open>__proto__\<close>; \<open>JSON.parse\<close>
      makes one for that key\<close>
  "hasOwnProto j = (case j of JObj kvs \<Rightarrow> ''__proto__'' \<in> fst ` set kvs | _ \<Rightarrow> False)"

text \<open>
  An assignment \<open>a['__proto__'] = v\<close> runs the setter of \<open>Object.prototype\<close> when the
  lookup of \<open>__proto__\<close> from \<open>a\<close> gets there: neither \<open>a\<close> nor an object on its prototype
  chain has an own property of that name, and the chain does not end at \<open>null\<close>. The
  chain is followed for as many steps as the store has objects.
\<close>

fun setterReachedFrom :: "nat \<Rightarrow> heap \<Rightarrow> nat \<Rightarrow> bool" where
  "setterReachedFrom 0 h a = False"
| "setterReachedFrom (Suc steps) h a =
     (case objects h a of
        None \<Rightarrow> False
      | Some ob \<Rightarrow>
          own ob ''__proto__'' = None \<and>
          (case proto ob of
             ObjectPrototype \<Rightarrow> True
           | NullPrototype \<Rightarrow> False
           | InputObject j \<Rightarrow> \<not> hasOwnProto j
           | ObjectAt b \<Rightarrow> setterReachedFrom steps h b))"

definition setterReached :: "heap \<Rightarrow> nat \<Rightarrow> bool" where
  "setterReached h a = setterReachedFrom (fresh h) h a"

definition setPrototype :: "property \<Rightarrow> object \<Rightarrow> object" where
  \<comment> \<open>the setter: an object or \<open>null\<close> becomes the prototype, any other value is ignored\<close>
  "setPrototype v ob =
     (case v of
        Object b \<Rightarrow> ob\<lparr>proto := ObjectAt b\<rparr>
      | Value JNull \<Rightarrow> ob\<lparr>proto := NullPrototype\<rparr>
      | Value (JObj kvs) \<Rightarrow> ob\<lparr>proto := InputObject (JObj kvs)\<rparr>
      | Value (JArr js) \<Rightarrow> ob\<lparr>proto := InputObject (JArr js)\<rparr>
      | Value _ \<Rightarrow> ob)"

definition setProperty :: "nat \<Rightarrow> string \<Rightarrow> property \<Rightarrow> heap \<Rightarrow> heap" where
  \<comment> \<open>\<open>a[k] = v\<close>\<close>
  "setProperty a k v h =
     (case objects h a of
        None \<Rightarrow> h
      | Some ob \<Rightarrow>
          if k = ''__proto__'' \<and> setterReached h a
          then h\<lparr>objects := (objects h)(a \<mapsto> setPrototype v ob)\<rparr>
          else h\<lparr>objects := (objects h)(a \<mapsto> ob\<lparr>own := (own ob)(k \<mapsto> v)\<rparr>)\<rparr>)"

definition objectAssign :: "nat \<Rightarrow> nat \<Rightarrow> heap \<Rightarrow> heap" where
  \<comment> \<open>\<open>Object.assign(target, src)\<close>: every own property of \<open>src\<close> is assigned to
      \<open>target\<close>; the order matters for none but \<open>__proto__\<close>, which is taken last\<close>
  "objectAssign target src h =
     (case objects h target of
        None \<Rightarrow> h
      | Some t \<Rightarrow>
          (case objects h src of
             None \<Rightarrow> h
           | Some s \<Rightarrow>
               (let h1 = h\<lparr>objects := (objects h)
                            (target \<mapsto> t\<lparr>own := own t ++ (own s)(''__proto__'' := None)\<rparr>)\<rparr>
                in case own s ''__proto__'' of
                     None \<Rightarrow> h1
                   | Some v \<Rightarrow> setProperty target ''__proto__'' v h1)))"

definition element :: "string list \<Rightarrow> nat \<Rightarrow> string" where
  \<comment> \<open>an array element used as a property name; a missing one is \<open>undefined\<close>\<close>
  "element parts i = (if i < length parts then parts ! i else ''undefined'')"

definition idOfKey :: "string \<Rightarrow> string" where
  "idOfKey key = element (split CHR ''.'' key) 1"

definition signOfKey :: "string \<Rightarrow> string" where
  "signOfKey key = element (split CHR ''.'' key) 2"

definition groupEntry ::
  "nat \<Rightarrow> nat \<Rightarrow> nat \<Rightarrow> string \<Rightarrow> string \<times> json \<Rightarrow> heap \<Rightarrow> heap" where
  \<comment> \<open>the body of the loop over \<open>Object.entries(fileObject)\<close>\<close>
  "groupEntry translate localesTranslate componentLocalesTranslate loc entry h =
     (let h1 = setProperty translate (signOfKey (fst entry)) (Value (snd entry)) h;
          h2 = setProperty localesTranslate loc (Object translate) h1
      in setProperty componentLocalesTranslate (idOfKey (fst entry)) (Object localesTranslate) h2)"

definition groupFileObject :: "nat \<Rightarrow> string \<Rightarrow> (string \<times> json) list \<Rightarrow> heap \<Rightarrow> heap" where
  \<comment> \<open>the body of the loop over \<open>fileObjects\<close>\<close>
  "groupFileObject groupedFileObjects loc fileObject h =
     (let (translate, h1) = newObject h;
          (localesTranslate, h2) = newObject h1;
          (componentLocalesTranslate, h3) = newObject h2;
          h4 = fold (groupEntry translate localesTranslate componentLocalesTranslate loc)
                 fileObject h3
      in objectAssign groupedFileObjects componentLocalesTranslate h4)"

definition groupFileContentByTranslations ::
  "(string \<times> json) list list \<Rightarrow> string \<Rightarrow> nat \<times> heap" where
  \<comment> \<open>returns the address of \<open>groupedFileObjects\<close> and the store it lives in\<close>
  "groupFileContentByTranslations fileObjects loc =
     (let (groupedFileObjects, h) = newObject \<lparr>objects = Map.empty, fresh = 0\<rparr>
      in (groupedFileObjects, fold (groupFileObject groupedFileObjects loc) fileObjects h))"





section \<open>Auxiliary notions and example inputs\<close>


text \<open>
  The records of the lists whose environment is \<open>prod\<close>, picked out of the records of
  all lists (one record per list directory, in the order of the directories).
\<close>

definition prodOnly :: "filterDir list \<Rightarrow> filterMetadata list \<Rightarrow> filterMetadata list" where
  "prodOnly fds dev =
     map snd (filter (\<lambda>p. environment (metadataJson (fst p)) = Some ''prod'') (zip fds dev))"

text \<open>
  Inputs for checking the statements below on concrete runs: stand-ins for the external
  functions (a compiler that fails on a configuration without sources), a list directory
  built from its id, environment, disabled flag and source URLs, and a disk that holds
  only \<open>services.json\<close>.
\<close>

definition exampleExternals :: externals where
  "exampleExternals =
     \<lparr>md5 = rev, base64 = (\<lambda>s. s @ ''==''),
      hostlistCompiler = (\<lambda>c. if sources c = [] then Inl ''no sources''
                               else Inr (''! Last modified: today'' # map source (sources c))),
      mastodonServerlistCompiler = Inr [''||mastodon.example^'']\<rparr>"

definition exampleFilterDir :: "string \<Rightarrow> string \<Rightarrow> bool \<Rightarrow> string list \<Rightarrow> filterDir" where
  "exampleFilterDir i env off urls =
     \<lparr>dir = ''filters/'' @ i,
      metadataJson =
        \<lparr>filterId = JStr i, id' = i, name = JStr ''List'', description = JNull, tags = JArr [],
         homepage = ''https://home.example/'' @ i, expires = Some ''4 days'', displayNumber = JNum 1,
         timeAdded = JNum 1000, environment = Some env, disabled = off\<rparr>,
      configurationJson = \<lparr>sources = map (\<lambda>u. \<lparr>source = u\<rparr>) urls\<rparr>,
      clockAtRead = 5000, clockAtMake = 5001\<rparr>"

definition exampleWorld :: world where
  "exampleWorld =
     \<lparr>files = [ServicesFile \<mapsto> Services \<lparr>blocked_services = [\<lparr>service_id = ''mastodon'', rules = []\<rparr>]\<rparr>],
      written = []\<rparr>"

text \<open>
  Reading an own property, and all own properties, of an object of the store; the object
  that \<open>componentLocalesTranslate\<close> becomes for one file object when the locale is not
  \<open>__proto__\<close> (each of its ids but \<open>__proto__\<close> with a reference to the object at \<open>l\<close>);
  and the state of a locale object and a component object between two entries of a file
  object with such a locale, in which an assignment to \<open>__proto__\<close> on the component
  reaches the setter.
\<close>

definition propertyAt :: "heap \<Rightarrow> nat \<Rightarrow> string \<Rightarrow> property option" where
  "propertyAt h a k = (case objects h a of None \<Rightarrow> None | Some ob \<Rightarrow> own ob k)"



definition shareReady :: "heap \<Rightarrow> nat \<Rightarrow> nat \<Rightarrow> bool" where
  "shareReady h l c =
     (l \<noteq> c \<and> 2 \<le> fresh h \<and>
      (case objects h l of
         None \<Rightarrow> False
       | Some ol \<Rightarrow> own ol ''__proto__'' = None \<and> proto ol = ObjectPrototype) \<and>
      (case objects h c of
         None \<Rightarrow> False
       | Some oc \<Rightarrow> own oc ''__proto__'' = None \<and> (proto oc = ObjectPrototype \<or> proto oc = ObjectAt l)))"


text \<open>A locale directory whose \<open>filters.json\<close> holds one message with one key.\<close>

definition exampleLocaleDir :: "string \<Rightarrow> string \<Rightarrow> string \<Rightarrow> json localeDir" where
  "exampleLocaleDir loc key text =
     \<lparr>localeName = loc, tagsJson = None, filtersJson = Some [[(key, JStr text)]]\<rparr>"

text \<open>The disk after the build has processed the enabled example list \<open>1\<close>.\<close>

definition afterFirstList :: world where
  "afterFirstList =
     writeFile (FilterFile ''filters/1'') (Text (''! Last modified: today'' @ [CHR 0x0A] @ ''https://a.example/list.txt''))
        (writeFile (AssetsFilterFile ''filter_1.txt'') (Text (''! Last modified: today'' @ [CHR 0x0A] @ ''https://a.example/list.txt''))
          (writeFile (RevisionFile ''filters/1'') (Revision \<lparr>timeUpdated = 5001, hash = Some (''txt.tsil/elpmaxe.a//:sptth=='')\<rparr>) exampleWorld))"


section \<open>Properties of the revision tracker\<close>

lemma makeRevision_hash: "hash (makeRevision now prev h) = Some h"
  by (simp add: makeRevision_def Let_def split: option.splits)

lemma makeRevision_time:
  "timeUpdated (makeRevision now prev h) =
     (case prev of
        None \<Rightarrow> now
      | Some p \<Rightarrow> if hash p = Some h then timeUpdated p else now)"
  by (simp add: makeRevision_def Let_def split: option.splits)

text \<open>
  Claim C1. For every previous revision record and every new content hash,
  \<open>makeRevision\<close> returns a record whose hash is the new hash; its \<open>timeUpdated\<close> is the
  previous record's when there is a previous record with the same hash, and the clock
  reading otherwise. Running it again on its own result with the same hash, at any later
  clock reading, keeps \<open>timeUpdated\<close>.
\<close>

theorem makeRevision_decides:
  "hash (makeRevision now prev h) = Some h
   \<and> timeUpdated (makeRevision now prev h) =
       (case prev of
          None \<Rightarrow> now
        | Some p \<Rightarrow> if hash p = Some h then timeUpdated p else now)
   \<and> timeUpdated (makeRevision later (Some (makeRevision now prev h)) h) =
       timeUpdated (makeRevision now prev h)"
  by (simp add: makeRevision_hash makeRevision_time)

theorem makeRevision_decides_witness:
  "timeUpdated (makeRevision 200 (Some \<lparr>timeUpdated = 100, hash = Some ''abc''\<rparr>) ''abc'') = 100
   \<and> timeUpdated (makeRevision 200 (Some \<lparr>timeUpdated = 100, hash = Some ''abc''\<rparr>) ''xyz'') = 200
   \<and> timeUpdated (makeRevision 200 None ''xyz'') = 200
   \<and> timeUpdated (makeRevision 300 (Some (makeRevision 200 None ''xyz'')) ''xyz'') = 200"
  using makeRevision_decides [of 200 "Some \<lparr>timeUpdated = 100, hash = Some ''abc''\<rparr>" "''abc''" 300]
    makeRevision_decides [of 200 "Some \<lparr>timeUpdated = 100, hash = Some ''abc''\<rparr>" "''xyz''" 300]
    makeRevision_decides [of 200 None "''xyz''" 300]
  by simp

section \<open>Properties of the revision hash\<close>

lemma calculateRevisionHash_replace_line:
  "startsWith a lastModifiedMarker \<Longrightarrow> startsWith b lastModifiedMarker \<Longrightarrow>
   calculateRevisionHash digest encode (pre @ a # post) = calculateRevisionHash digest encode (pre @ b # post)"
  by (simp add: calculateRevisionHash_def)

text \<open>
  Claim C2. Two arrays of compiled lines that are equal once every line starting with
  the marker \<open>! Last modified:\<close> is removed have the same revision hash, whatever the
  digest and the encoding are. Two arrays that differ in one such line are a case of it
  (\<open>calculateRevisionHash_replace_line\<close>).
\<close>

theorem calculateRevisionHash_ignores_last_modified:
  assumes "filter (\<lambda>s. \<not> startsWith s lastModifiedMarker) xs = filter (\<lambda>s. \<not> startsWith s lastModifiedMarker) ys"
  shows "calculateRevisionHash digest encode xs = calculateRevisionHash digest encode ys"
  using assms by (simp add: calculateRevisionHash_def)

theorem calculateRevisionHash_ignores_last_modified_witness:
  "filter (\<lambda>s. \<not> startsWith s lastModifiedMarker) [''! Last modified: 2024-01-01'', ''||a.example^'']
     = filter (\<lambda>s. \<not> startsWith s lastModifiedMarker) [''! Last modified: 2025-06-30'', ''||a.example^'']
   \<and> calculateRevisionHash rev (\<lambda>s. s @ ''=='') [''! Last modified: 2024-01-01'', ''||a.example^'']
     = calculateRevisionHash rev (\<lambda>s. s @ ''=='') [''! Last modified: 2025-06-30'', ''||a.example^'']"
proof -
  have h: "filter (\<lambda>s. \<not> startsWith s lastModifiedMarker) [''! Last modified: 2024-01-01'', ''||a.example^'']
     = filter (\<lambda>s. \<not> startsWith s lastModifiedMarker) [''! Last modified: 2025-06-30'', ''||a.example^'']"
    by (simp add: lastModifiedMarker_def)
  show ?thesis using h calculateRevisionHash_ignores_last_modified [OF h, of rev "\<lambda>s. s @ ''==''"] by simp
qed


section \<open>Properties of one build iteration\<close>

lemma writeFile_written: "written (writeFile p c w) = written w @ [p]"
  by (simp add: writeFile_def)

lemma writeFile_files: "files (writeFile p c w) q = (if q = p then Some c else files w q)"
  by (simp add: writeFile_def)

lemma compileHostlist_effect:
  assumes "compileHostlist ext fd cur w = (w', r)"
  shows "w' = w \<or>
         (\<not> disabled (metadataJson fd) \<and>
          (\<exists>compiled. hostlistCompiler ext (configurationJson fd) = Inr compiled
             \<and> hash cur \<noteq> Some (calculateRevisionHash (md5 ext) (base64 ext) compiled)
             \<and> w' = writeFile (FilterFile (dir fd)) (Text (join [CHR 0x0A] compiled))
                      (writeFile (AssetsFilterFile (filterNameOf (metadataJson fd))) (Text (join [CHR 0x0A] compiled))
                        (writeFile (RevisionFile (dir fd))
                           (Revision (makeRevision (clockAtMake fd) (Some cur)
                               (calculateRevisionHash (md5 ext) (base64 ext) compiled))) w))
             \<and> r = Inr (timeUpdated (makeRevision (clockAtMake fd) (Some cur)
                               (calculateRevisionHash (md5 ext) (base64 ext) compiled)))))"
  using assms
  by (auto simp: compileHostlist_def Let_def split: if_splits sum.splits)

lemma processFilterDir_effect:
  assumes "processFilterDir ext fd w = (w', r)"
  shows "w' = w \<or>
         (\<not> disabled (metadataJson fd) \<and>
          (\<exists>compiled cur. hostlistCompiler ext (configurationJson fd) = Inr compiled
             \<and> readRevision w fd = Inr cur
             \<and> hash cur \<noteq> Some (calculateRevisionHash (md5 ext) (base64 ext) compiled)
             \<and> w' = writeFile (FilterFile (dir fd)) (Text (join [CHR 0x0A] compiled))
                      (writeFile (AssetsFilterFile (filterNameOf (metadataJson fd))) (Text (join [CHR 0x0A] compiled))
                        (writeFile (RevisionFile (dir fd))
                           (Revision (makeRevision (clockAtMake fd) (Some cur)
                               (calculateRevisionHash (md5 ext) (base64 ext) compiled))) w))))"
proof (cases "readRevision w fd")
  case (Inl e)
  with assms show ?thesis by (simp add: processFilterDir_def)
next
  case (Inr cur)
  obtain w1 r1 where c: "compileHostlist ext fd cur w = (w1, r1)" by (cases "compileHostlist ext fd cur w")
  from assms Inr c have "w' = w1" by (auto simp: processFilterDir_def split: sum.splits)
  with compileHostlist_effect [OF c] Inr show ?thesis by blast
qed



lemma processFilterDir_disabled:
  assumes "disabled (metadataJson fd)"
  shows "processFilterDir ext fd w =
           (w, case readRevision w fd of Inl e \<Rightarrow> Inl e
               | Inr cur \<Rightarrow> Inr (populate fd (timeUpdated cur)))"
  using assms by (simp add: processFilterDir_def compileHostlist_def split: sum.splits)

lemma processFilterDir_id:
  "processFilterDir ext fd w = (w', Inr fm) \<Longrightarrow> fm_id fm = id' (metadataJson fd)"
  by (auto simp: processFilterDir_def populate_def Let_def split: sum.splits prod.splits)

lemma ex_enabled:
  "processFilterDir exampleExternals (exampleFilterDir ''1'' ''prod'' False [''https://a.example/list.txt'']) exampleWorld
    = (writeFile (FilterFile ''filters/1'') (Text (''! Last modified: today'' @ [CHR 0x0A] @ ''https://a.example/list.txt''))
        (writeFile (AssetsFilterFile ''filter_1.txt'') (Text (''! Last modified: today'' @ [CHR 0x0A] @ ''https://a.example/list.txt''))
          (writeFile (RevisionFile ''filters/1'') (Revision \<lparr>timeUpdated = 5001, hash = Some (''txt.tsil/elpmaxe.a//:sptth=='')\<rparr>) exampleWorld)),
       Inr (populate (exampleFilterDir ''1'' ''prod'' False [''https://a.example/list.txt'']) 5001))"
  by (simp add: processFilterDir_def readRevision_def compileHostlist_def exampleExternals_def
      exampleFilterDir_def exampleWorld_def calculateRevisionHash_def lastModifiedMarker_def
      makeRevision_def trim_def isWhiteSpace_def filterNameOf_def Let_def)


lemma afterFirstList_files:
  "files afterFirstList (RevisionFile ''filters/1'') = Some (Revision \<lparr>timeUpdated = 5001, hash = Some (''txt.tsil/elpmaxe.a//:sptth=='')\<rparr>)"
  "files afterFirstList (RevisionFile ''filters/2'') = None"
  "files afterFirstList ServicesFile = files exampleWorld ServicesFile"
  by (simp_all add: afterFirstList_def writeFile_files exampleWorld_def)


lemma ex_disabled:
  "processFilterDir exampleExternals (exampleFilterDir ''2'' ''staging'' True []) afterFirstList
     = (afterFirstList, Inr (populate (exampleFilterDir ''2'' ''staging'' True []) 5000))"
  by (simp add: processFilterDir_def readRevision_def afterFirstList_files compileHostlist_def
        exampleExternals_def exampleFilterDir_def)

text \<open>
  Running an iteration again on the disk it left, with the same metadata, configuration
  and compiler answer, writes nothing and emits the same record, whatever the clock
  reads the second time.
\<close>

lemma populate_cong:
  "metadataJson fd' = metadataJson fd \<Longrightarrow> configurationJson fd' = configurationJson fd \<Longrightarrow>
   populate fd' t = populate fd t"
  by (simp add: populate_def)

lemma processFilterDir_stored_equal:
  assumes "\<not> disabled (metadataJson fd)"
    and "hostlistCompiler ext (configurationJson fd) = Inr compiled"
    and "files w (RevisionFile (dir fd)) = Some (Revision r)"
    and "hash r = Some (calculateRevisionHash (md5 ext) (base64 ext) compiled)"
  shows "processFilterDir ext fd w = (w, Inr (populate fd (timeUpdated r)))"
  using assms by (simp add: processFilterDir_def readRevision_def compileHostlist_def)


lemma processFilterDir_enabled:
  assumes "\<not> disabled (metadataJson fd)"
    and "readRevision w fd = Inr cur"
    and "hostlistCompiler ext (configurationJson fd) = Inr compiled"
  shows "processFilterDir ext fd w =
     (if hash cur \<noteq> Some (calculateRevisionHash (md5 ext) (base64 ext) compiled)
      then (writeFile (FilterFile (dir fd)) (Text (join [CHR 0x0A] compiled))
             (writeFile (AssetsFilterFile (filterNameOf (metadataJson fd))) (Text (join [CHR 0x0A] compiled))
               (writeFile (RevisionFile (dir fd))
                  (Revision (makeRevision (clockAtMake fd) (Some cur)
                     (calculateRevisionHash (md5 ext) (base64 ext) compiled))) w)),
            Inr (populate fd (timeUpdated (makeRevision (clockAtMake fd) (Some cur)
                     (calculateRevisionHash (md5 ext) (base64 ext) compiled)))))
      else (w, Inr (populate fd (timeUpdated cur))))"
  using assms by (simp add: processFilterDir_def compileHostlist_def Let_def)

lemma processFilterDir_succeeds:
  assumes "\<not> disabled (metadataJson fd)" and "processFilterDir ext fd w = (w1, Inr fm)"
  shows "\<exists>cur compiled. readRevision w fd = Inr cur
           \<and> hostlistCompiler ext (configurationJson fd) = Inr compiled"
proof (cases "readRevision w fd")
  case (Inl e)
  with assms(2) show ?thesis by (simp add: processFilterDir_def)
next
  case (Inr cur)
  show ?thesis
  proof (cases "hostlistCompiler ext (configurationJson fd)")
    case (Inl ex)
    with assms Inr show ?thesis by (simp add: processFilterDir_def compileHostlist_def)
  next
    case c: (Inr compiled)
    with Inr show ?thesis by simp
  qed
qed

lemma readRevision_stored:
  assumes "readRevision w fd = Inr cur" and "hash cur = Some h"
  shows "files w (RevisionFile (dir fd)) = Some (Revision cur)"
proof (cases "files w (RevisionFile (dir fd))")
  case None
  with assms(1) have "hash cur = None" by (auto simp: readRevision_def)
  with assms(2) show ?thesis by simp
next
  case (Some c)
  with assms(1) show ?thesis by (cases c) (simp_all add: readRevision_def)
qed

lemma second_run_is_idle:
  assumes "\<not> disabled (metadataJson fd)"
    and "processFilterDir ext fd w = (w1, Inr fm)"
    and "dir fd' = dir fd" "metadataJson fd' = metadataJson fd"
        "configurationJson fd' = configurationJson fd"
  shows "processFilterDir ext fd' w1 = (w1, Inr fm)"
proof -
  from processFilterDir_succeeds [OF assms(1,2)] obtain cur compiled where
    cur: "readRevision w fd = Inr cur" and
    c: "hostlistCompiler ext (configurationJson fd) = Inr compiled" by blast
  let ?h = "calculateRevisionHash (md5 ext) (base64 ext) compiled"
  let ?r = "makeRevision (clockAtMake fd) (Some cur) ?h"
  note e = processFilterDir_enabled [OF assms(1) cur c]
  have d': "\<not> disabled (metadataJson fd')" using assms(1,4) by simp
  have c': "hostlistCompiler ext (configurationJson fd') = Inr compiled" using c assms(5) by simp
  show ?thesis
  proof (cases "hash cur = Some ?h")
    case True
    with e assms(2) have w1: "w1 = w" and fm: "fm = populate fd (timeUpdated cur)" by simp_all
    have "files w (RevisionFile (dir fd')) = Some (Revision cur)"
      using readRevision_stored [OF cur True] assms(3) by simp
    from processFilterDir_stored_equal [OF d' c' this True]
    show ?thesis using w1 fm by (simp add: populate_cong [OF assms(4,5)])
  next
    case False
    with e assms(2) have
      w1: "w1 = writeFile (FilterFile (dir fd)) (Text (join [CHR 0x0A] compiled))
                      (writeFile (AssetsFilterFile (filterNameOf (metadataJson fd))) (Text (join [CHR 0x0A] compiled))
                        (writeFile (RevisionFile (dir fd)) (Revision ?r) w))"
      and fm: "fm = populate fd (timeUpdated ?r)"
      by simp_all
    have f: "files w1 (RevisionFile (dir fd')) = Some (Revision ?r)"
      by (simp add: w1 writeFile_files assms(3))
    have h: "hash ?r = Some ?h" by (rule makeRevision_hash)
    from processFilterDir_stored_equal [OF d' c' f h]
    show ?thesis using fm by (simp add: populate_cong [OF assms(4,5)])
  qed
qed

text \<open>
  Claim C7. One iteration of the build changes the disk (and calls \<open>writeFile\<close> at all)
  only for an enabled list whose compiled content hashes to something other than the
  hash in its stored revision. For a disabled list the disk stays as it is, the
  compiler's answer plays no part in the result, and the metadata record is emitted
  with the stored \<open>timeUpdated\<close>.
\<close>

theorem rewritten_only_when_changed:
  "(fst (processFilterDir ext fd w) \<noteq> w \<longrightarrow>
      \<not> disabled (metadataJson fd)
      \<and> (\<exists>compiled cur. hostlistCompiler ext (configurationJson fd) = Inr compiled
            \<and> readRevision w fd = Inr cur
            \<and> hash cur \<noteq> Some (calculateRevisionHash (md5 ext) (base64 ext) compiled)))
   \<and> (disabled (metadataJson fd) \<longrightarrow>
         fst (processFilterDir ext fd w) = w
         \<and> processFilterDir (ext\<lparr>hostlistCompiler := other\<rparr>) fd w = processFilterDir ext fd w
         \<and> (\<forall>cur. readRevision w fd = Inr cur \<longrightarrow>
               snd (processFilterDir ext fd w) = Inr (populate fd (timeUpdated cur))))"
proof -
  obtain w' r where s: "processFilterDir ext fd w = (w', r)" by (cases "processFilterDir ext fd w")
  have a: "fst (processFilterDir ext fd w) \<noteq> w \<longrightarrow>
      \<not> disabled (metadataJson fd)
      \<and> (\<exists>compiled cur. hostlistCompiler ext (configurationJson fd) = Inr compiled
            \<and> readRevision w fd = Inr cur
            \<and> hash cur \<noteq> Some (calculateRevisionHash (md5 ext) (base64 ext) compiled))"
    using processFilterDir_effect [OF s] s by auto
  have b: "disabled (metadataJson fd) \<longrightarrow>
         fst (processFilterDir ext fd w) = w
         \<and> processFilterDir (ext\<lparr>hostlistCompiler := other\<rparr>) fd w = processFilterDir ext fd w
         \<and> (\<forall>cur. readRevision w fd = Inr cur \<longrightarrow>
               snd (processFilterDir ext fd w) = Inr (populate fd (timeUpdated cur)))"
    by (simp add: processFilterDir_disabled)
  from a b show ?thesis by blast
qed

theorem rewritten_only_when_changed_witness:
  "written (fst (processFilterDir exampleExternals
       (exampleFilterDir ''1'' ''prod'' False [''https://a.example/list.txt'']) exampleWorld))
     = [RevisionFile ''filters/1'', AssetsFilterFile ''filter_1.txt'', FilterFile ''filters/1'']
   \<and> \<not> disabled (metadataJson (exampleFilterDir ''1'' ''prod'' False [''https://a.example/list.txt'']))
   \<and> disabled (metadataJson (exampleFilterDir ''2'' ''prod'' True [''https://a.example/list.txt'']))
   \<and> fst (processFilterDir exampleExternals
       (exampleFilterDir ''2'' ''prod'' True [''https://a.example/list.txt'']) exampleWorld) = exampleWorld
   \<and> (\<exists>fm. snd (processFilterDir exampleExternals
       (exampleFilterDir ''2'' ''prod'' True [''https://a.example/list.txt'']) exampleWorld) = Inr fm)"
proof -
  have d: "disabled (metadataJson (exampleFilterDir ''2'' ''prod'' True [''https://a.example/list.txt'']))"
    by (simp add: exampleFilterDir_def)
  have r: "readRevision exampleWorld (exampleFilterDir ''2'' ''prod'' True [''https://a.example/list.txt''])
             = Inr \<lparr>timeUpdated = 5000, hash = None\<rparr>"
    by (simp add: readRevision_def exampleWorld_def exampleFilterDir_def)
  have e: "written (fst (processFilterDir exampleExternals
       (exampleFilterDir ''1'' ''prod'' False [''https://a.example/list.txt'']) exampleWorld))
     = [RevisionFile ''filters/1'', AssetsFilterFile ''filter_1.txt'', FilterFile ''filters/1'']"
    by (simp add: ex_enabled writeFile_written) (simp add: exampleWorld_def)
  have n: "\<not> disabled (metadataJson (exampleFilterDir ''1'' ''prod'' False [''https://a.example/list.txt'']))"
    by (simp add: exampleFilterDir_def)
  from e have ne: "fst (processFilterDir exampleExternals
       (exampleFilterDir ''1'' ''prod'' False [''https://a.example/list.txt'']) exampleWorld) \<noteq> exampleWorld"
    by (auto simp: exampleWorld_def)
  show ?thesis
    using rewritten_only_when_changed [of exampleExternals
        "exampleFilterDir ''1'' ''prod'' False [''https://a.example/list.txt'']" exampleWorld]
      rewritten_only_when_changed [of exampleExternals
        "exampleFilterDir ''2'' ''prod'' True [''https://a.example/list.txt'']" exampleWorld]
      d r e n ne
    by simp
qed

text \<open>
  Claim C8. The \<open>sourceUrl\<close> of an emitted metadata record is the URL of the only source
  when the configuration has exactly one source, and the homepage of the descriptor in
  every other case.
\<close>

theorem sourceUrl_resolution:
  assumes "snd (processFilterDir ext fd w) = Inr fm"
  shows "fm_sourceUrl fm =
           (if length (sources (configurationJson fd)) = 1
            then source (hd (sources (configurationJson fd)))
            else homepage (metadataJson fd))"
proof -
  from assms obtain t where "fm = populate fd t"
    by (auto simp: processFilterDir_def split: sum.splits prod.splits)
  then show ?thesis
    by (cases "sources (configurationJson fd)") (simp_all add: populate_def sourceUrlOf_def Let_def)
qed

theorem sourceUrl_resolution_witness:
  "(\<exists>fm. snd (processFilterDir exampleExternals
             (exampleFilterDir ''1'' ''prod'' False [''https://a.example/list.txt'']) exampleWorld) = Inr fm
         \<and> fm_sourceUrl fm = ''https://a.example/list.txt'')
   \<and> (\<exists>fm. snd (processFilterDir exampleExternals
             (exampleFilterDir ''3'' ''prod'' True [''https://a.example/1'', ''https://a.example/2'', ''https://a.example/3'']) exampleWorld) = Inr fm
         \<and> fm_sourceUrl fm = ''https://home.example/3'')"
proof -
  let ?one = "exampleFilterDir ''1'' ''prod'' False [''https://a.example/list.txt'']"
  let ?three = "exampleFilterDir ''3'' ''prod'' True [''https://a.example/1'', ''https://a.example/2'', ''https://a.example/3'']"
  have a: "snd (processFilterDir exampleExternals ?one exampleWorld) = Inr (populate ?one 5001)"
    by (simp add: ex_enabled)
  have b: "snd (processFilterDir exampleExternals ?three exampleWorld) = Inr (populate ?three 5000)"
    by (simp add: processFilterDir_def readRevision_def compileHostlist_def exampleFilterDir_def exampleWorld_def)
  have "fm_sourceUrl (populate ?one 5001) = ''https://a.example/list.txt''"
    using sourceUrl_resolution [OF a] by (simp add: exampleFilterDir_def)
  moreover have "fm_sourceUrl (populate ?three 5000) = ''https://home.example/3''"
    using sourceUrl_resolution [OF b] by (simp add: exampleFilterDir_def)
  ultimately show ?thesis using a b by blast
qed


section \<open>Properties of the whole build\<close>

lemma processFilterDirs_partition:
  "processFilterDirs ext fds pr dv w = (w', Inr (pr', dv')) \<Longrightarrow>
     \<exists>ds. dv' = dv @ ds \<and> length ds = length fds
          \<and> map fm_id ds = map (id' \<circ> metadataJson) fds
          \<and> pr' = pr @ prodOnly fds ds"
proof (induction fds arbitrary: pr dv w)
  case Nil
  then show ?case by (simp add: prodOnly_def)
next
  case (Cons fd fds)
  obtain w1 r1 where s: "processFilterDir ext fd w = (w1, r1)" by (cases "processFilterDir ext fd w")
  with Cons.prems obtain fm where r1: "r1 = Inr fm" by (cases r1) auto
  let ?pr = "if environment (metadataJson fd) = Some ''prod'' then pr @ [fm] else pr"
  from Cons.prems s r1 have "processFilterDirs ext fds ?pr (dv @ [fm]) w1 = (w', Inr (pr', dv'))"
    by simp
  from Cons.IH [OF this] obtain ds where ds: "dv' = (dv @ [fm]) @ ds" "length ds = length fds"
    "map fm_id ds = map (id' \<circ> metadataJson) fds" "pr' = ?pr @ prodOnly fds ds" by blast
  have id: "fm_id fm = id' (metadataJson fd)" using s r1 processFilterDir_id by blast
  have "dv' = dv @ (fm # ds)" using ds by simp
  moreover have "length (fm # ds) = length (fd # fds)" using ds by simp
  moreover have "map fm_id (fm # ds) = map (id' \<circ> metadataJson) (fd # fds)" using ds id by simp
  moreover have "pr' = pr @ prodOnly (fd # fds) (fm # ds)" using ds by (simp add: prodOnly_def)
  ultimately show ?case by blast
qed

lemma build_success:
  assumes "build ext fds tm lds w = (w', None)"
  shows "\<exists>w1 pr dv svcs. processFilterDirs ext fds [] [] w = (w1, Inr (pr, dv))
           \<and> w' = writeCatalogs svcs pr dv tm lds w1"
  using assms
  by (auto simp: build_def Let_def split: prod.splits sum.splits option.splits if_splits)


lemma writeCatalogs_files:
  "files (writeCatalogs svcs pr dv tm lds w) FiltersMetadataFile = Some (Catalog \<lparr>filters = pr, tags' = tm\<rparr>)"
  "files (writeCatalogs svcs pr dv tm lds w) FiltersMetadataDevFile = Some (Catalog \<lparr>filters = dv, tags' = tm\<rparr>)"
  by (simp_all add: writeCatalogs_def Let_def writeFile_files)


lemma build_example_succeeds:
  "build exampleExternals
     [exampleFilterDir ''1'' ''prod'' False [''https://a.example/list.txt''],
      exampleFilterDir ''2'' ''staging'' True []] JNull [] exampleWorld
   = (writeCatalogs \<lparr>blocked_services = [\<lparr>service_id = ''mastodon'', rules = [''||mastodon.example^'']\<rparr>]\<rparr>
        [populate (exampleFilterDir ''1'' ''prod'' False [''https://a.example/list.txt'']) 5001]
        [populate (exampleFilterDir ''1'' ''prod'' False [''https://a.example/list.txt'']) 5001,
         populate (exampleFilterDir ''2'' ''staging'' True []) 5000] JNull [] afterFirstList, None)"
proof -
  have e1: "environment (metadataJson (exampleFilterDir ''1'' ''prod'' False [''https://a.example/list.txt''])) = Some ''prod''"
    by (simp add: exampleFilterDir_def)
  have e2: "environment (metadataJson (exampleFilterDir ''2'' ''staging'' True [])) \<noteq> Some ''prod''"
    by (simp add: exampleFilterDir_def)
  have r: "readServices afterFirstList = Inr (Some \<lparr>blocked_services = [\<lparr>service_id = ''mastodon'', rules = []\<rparr>]\<rparr>)"
    by (simp add: readServices_def afterFirstList_files) (simp add: exampleWorld_def)
  have m: "mastodonServerlistCompiler exampleExternals = Inr [''||mastodon.example^'']"
    by (simp add: exampleExternals_def)
  have f: "findIndex (\<lambda>el. service_id el = ''mastodon'') [\<lparr>service_id = ''mastodon'', rules = []\<rparr>] = 0"
    by (simp add: findIndex_def)
  show ?thesis
    by (simp add: build_def ex_enabled [folded afterFirstList_def] ex_disabled e1 e2 r m f)
qed

text \<open>
  Claim C9. After a build that succeeds, \<open>filters-dev.json\<close> holds one record per list,
  in the order of the list directories, and \<open>filters.json\<close> holds exactly the records of
  the lists whose environment is \<open>prod\<close>: a \<open>prod\<close> list is in both catalogs, any other
  list in the dev catalog only.
\<close>

theorem catalogs_partition:
  assumes "build ext fds tm lds w = (w', None)"
  shows "\<exists>dev. files w' FiltersMetadataDevFile = Some (Catalog \<lparr>filters = dev, tags' = tm\<rparr>)
           \<and> files w' FiltersMetadataFile = Some (Catalog \<lparr>filters = prodOnly fds dev, tags' = tm\<rparr>)
           \<and> length dev = length fds
           \<and> map fm_id dev = map (id' \<circ> metadataJson) fds"
proof -
  from build_success [OF assms] obtain w1 pr dv svcs where
    p: "processFilterDirs ext fds [] [] w = (w1, Inr (pr, dv))" and
    w': "w' = writeCatalogs svcs pr dv tm lds w1" by blast
  from processFilterDirs_partition [OF p] have "length dv = length fds"
    "map fm_id dv = map (id' \<circ> metadataJson) fds" "pr = prodOnly fds dv" by auto
  with w' show ?thesis by (auto simp: writeCatalogs_files)
qed

theorem catalogs_partition_witness:
  "\<exists>w' a b. build exampleExternals
     [exampleFilterDir ''1'' ''prod'' False [''https://a.example/list.txt''],
      exampleFilterDir ''2'' ''staging'' True []] JNull [] exampleWorld = (w', None)
    \<and> files w' FiltersMetadataDevFile = Some (Catalog \<lparr>filters = [a, b], tags' = JNull\<rparr>)
    \<and> files w' FiltersMetadataFile = Some (Catalog \<lparr>filters = [a], tags' = JNull\<rparr>)
    \<and> fm_id a = ''1'' \<and> fm_id b = ''2''"
proof -
  let ?fds = "[exampleFilterDir ''1'' ''prod'' False [''https://a.example/list.txt''],
      exampleFilterDir ''2'' ''staging'' True []]"
  from catalogs_partition [OF build_example_succeeds] obtain dev where
    d: "files (writeCatalogs \<lparr>blocked_services = [\<lparr>service_id = ''mastodon'', rules = [''||mastodon.example^'']\<rparr>]\<rparr>
        [populate (exampleFilterDir ''1'' ''prod'' False [''https://a.example/list.txt'']) 5001]
        [populate (exampleFilterDir ''1'' ''prod'' False [''https://a.example/list.txt'']) 5001,
         populate (exampleFilterDir ''2'' ''staging'' True []) 5000] JNull [] afterFirstList) FiltersMetadataDevFile
          = Some (Catalog \<lparr>filters = dev, tags' = JNull\<rparr>)"
      "files (writeCatalogs \<lparr>blocked_services = [\<lparr>service_id = ''mastodon'', rules = [''||mastodon.example^'']\<rparr>]\<rparr>
        [populate (exampleFilterDir ''1'' ''prod'' False [''https://a.example/list.txt'']) 5001]
        [populate (exampleFilterDir ''1'' ''prod'' False [''https://a.example/list.txt'']) 5001,
         populate (exampleFilterDir ''2'' ''staging'' True []) 5000] JNull [] afterFirstList) FiltersMetadataFile
          = Some (Catalog \<lparr>filters = prodOnly ?fds dev, tags' = JNull\<rparr>)"
      "length dev = length ?fds" "map fm_id dev = map (id' \<circ> metadataJson) ?fds"
    by blast
  from d(3) obtain a b where ab: "dev = [a, b]"
    by (cases dev; cases "tl dev"; cases "tl (tl dev)") auto
  have p: "prodOnly ?fds [a, b] = [a]" by (simp add: prodOnly_def exampleFilterDir_def)
  have i: "fm_id a = ''1''" "fm_id b = ''2''" using d(4) ab by (simp_all add: exampleFilterDir_def)
  show ?thesis using build_example_succeeds d(1,2) ab p i by auto
qed





section \<open>Properties of the expires field\<close>

lemmas expires_eval = replaceExpires_def parseInt_def isWhiteSpace_def isDigit_def digitValue_def
  toNumber_def roundToDouble_def times_def truthy_def indexOf_def

lemma bitLength_numeral [simp]:
  "bitLength 0 = 0"
  "bitLength (Suc 0) = Suc 0"
  "bitLength (numeral k) = Suc (bitLength (numeral k div 2))"
  by (simp_all add: bitLength.simps [of 0] bitLength.simps [of "Suc 0"]
      bitLength.simps [of "numeral k"])

text \<open>Rounding at the first integers that are not doubles: a tie goes to the even side.\<close>

lemma toNumber_rounds:
  "toNumber 9007199254740992 = JNumber 9007199254740992"
  "toNumber 9007199254740993 = JNumber 9007199254740992"
  "toNumber 9007199254740995 = JNumber 9007199254740996"
  "toNumber (- 9007199254740993) = JNumber (- 9007199254740992)"
  by (simp_all add: toNumber_def roundToDouble_def Let_def)

lemma replaceExpires_5_days: "replaceExpires (Some ''5 days'') = JNumber 432000"
  by (simp add: expires_eval)

lemma replaceExpires_4_hours: "replaceExpires (Some ''4 hours'') = JNumber 14400"
  by (simp add: expires_eval)

lemma replaceExpires_absent: "replaceExpires None = JNumber 86400"
  by (simp add: expires_eval)

lemma replaceExpires_no_number: "replaceExpires (Some ''x days'') = JNumber 86400"
  by (simp add: expires_eval)

lemma replaceExpires_unrecognized:
  assumes "s \<noteq> []" and "indexOf s ''day'' 0 \<le> 0" and "indexOf s ''hour'' 0 \<le> 0"
  shows "replaceExpires (Some s) = JString s"
  using assms by (simp add: replaceExpires_def truthy_def)

text \<open>
  Claim C4. The claim gives \<open>86400\<close> for every input that is not a number of days or of
  hours. The source does so for a missing value and for a day or hour string without a
  leading number, but a string in which neither \<open>day\<close> nor \<open>hour\<close> occurs after the first
  character is returned as it is: \<open>banana\<close> comes back as the string \<open>banana\<close>.
\<close>

theorem replaceExpires_keeps_unrecognized_string:
  "replaceExpires (Some ''banana'') = JString ''banana''"
  by (simp add: expires_eval)


section \<open>Properties of locale folding\<close>

lemma valueAt_addMessage:
  "valueAt (addMessage r pn i loc msg v) pn' i' loc' fld =
     (if pn' = pn \<and> i' = i \<and> loc' = loc \<and> fld = msg then Some v else valueAt r pn' i' loc' fld)"
  by (auto simp: valueAt_def addMessage_def Let_def split: option.splits)

lemma valueAt_foldProperty:
  "valueAt (foldProperty loc prefix pn e r) pn' i' loc' fld =
     (if info_id (parseInfo (fst e) prefix) \<noteq> [] \<and> pn' = pn \<and> i' = info_id (parseInfo (fst e) prefix)
         \<and> loc' = loc \<and> fld = info_message (parseInfo (fst e) prefix)
      then Some (snd e) else valueAt r pn' i' loc' fld)"
  by (simp add: foldProperty_def Let_def valueAt_addMessage)











lemma parseInfo_filter_10:
  "parseInfo ''filter.10.name'' ''hostlist.'' = \<lparr>info_id = ''0'', info_message = ''name''\<rparr>"
  by code_simp

lemma parseInfo_empty_id:
  "parseInfo ''hostlist..name'' ''hostlist.'' = \<lparr>info_id = [], info_message = ''name''\<rparr>"
  by code_simp


lemma foldProperty_empty_id:
  "info_id (parseInfo key prefix) = [] \<Longrightarrow> foldProperty loc prefix pn (key, v) r = r"
  by (simp add: foldProperty_def)



text \<open>
  Claim C6. The claim has every key without the expected prefix skipped. The source
  skips a key only when the id it parses is empty (\<open>foldProperty_empty_id\<close>), and for a
  key without the prefix \<open>indexOf\<close> is \<open>-1\<close>, so the id is cut out of the key at the
  prefix's length minus one and is usually not empty: \<open>filter.10.name\<close> in \<open>filters.json\<close>
  is recorded under the id \<open>0\<close>.
\<close>

theorem key_without_prefix_is_recorded:
  "indexOf ''filter.10.name'' ''hostlist.'' 0 = - 1
   \<and> parseInfo ''filter.10.name'' ''hostlist.'' = \<lparr>info_id = ''0'', info_message = ''name''\<rparr>
   \<and> valueAt (loadLocales [exampleLocaleDir ''en'' ''filter.10.name'' ''Ad list'']) Filters ''0'' ''en'' ''name''
       = Some (JStr ''Ad list'')"
proof -
  have "indexOf ''filter.10.name'' ''hostlist.'' 0 = - 1" by code_simp
  moreover have "valueAt (loadLocales [exampleLocaleDir ''en'' ''filter.10.name'' ''Ad list'']) Filters ''0'' ''en'' ''name''
       = Some (JStr ''Ad list'')"
    by (simp add: loadLocales_def foldLocaleDir_def foldItem_def exampleLocaleDir_def valueAt_foldProperty parseInfo_filter_10)
  ultimately show ?thesis by (simp add: parseInfo_filter_10)
qed


section \<open>Properties of the service group translations\<close>

lemma setProperty_fresh: "fresh (setProperty a k v h) = fresh h"
  by (simp add: setProperty_def split: option.splits)

lemma setProperty_other: "a' \<noteq> a \<Longrightarrow> objects (setProperty a k v h) a' = objects h a'"
  by (simp add: setProperty_def split: option.splits)

lemma setProperty_plain:
  "k \<noteq> ''__proto__'' \<Longrightarrow> objects h a = Some ob \<Longrightarrow>
   objects (setProperty a k v h) a = Some (ob\<lparr>own := (own ob)(k \<mapsto> v)\<rparr>)"
  by (simp add: setProperty_def)

lemma shareReady_setter:
  assumes "shareReady h l c"
  shows "setterReached h c"
proof -
  from assms have "2 \<le> fresh h" by (simp add: shareReady_def)
  then have "fresh h = Suc (Suc (fresh h - 2))" by arith
  then obtain m where f: "fresh h = Suc (Suc m)" ..
  from assms obtain ol oc where
    l: "objects h l = Some ol" "own ol ''__proto__'' = None" "proto ol = ObjectPrototype" and
    c: "objects h c = Some oc" "own oc ''__proto__'' = None"
       "proto oc = ObjectPrototype \<or> proto oc = ObjectAt l"
    by (auto simp: shareReady_def split: option.splits)
  show ?thesis
  proof (cases "proto oc = ObjectPrototype")
    case True
    then show ?thesis by (simp add: setterReached_def f c(1,2))
  next
    case False
    with c(3) have "proto oc = ObjectAt l" by simp
    then show ?thesis by (simp add: setterReached_def f c(1,2) l)
  qed
qed

lemma setProperty_component:
  assumes "shareReady h l c" and "objects h c = Some oc"
  shows "objects (setProperty c i (Object l) h) c =
           Some (if i = ''__proto__'' then oc\<lparr>proto := ObjectAt l\<rparr>
                 else oc\<lparr>own := (own oc)(i \<mapsto> Object l)\<rparr>)"
  using assms(2) shareReady_setter [OF assms(1)]
  by (simp add: setProperty_def setPrototype_def)


lemma shareReady_cong:
  "objects h' l = objects h l \<Longrightarrow> objects h' c = objects h c \<Longrightarrow> fresh h' = fresh h \<Longrightarrow>
   shareReady h' l c = shareReady h l c"
  by (simp add: shareReady_def)

lemma shareReady_translate:
  assumes "shareReady h l c" and "t \<noteq> l" and "t \<noteq> c"
  shows "shareReady (setProperty t k v h) l c"
proof -
  have "shareReady (setProperty t k v h) l c = shareReady h l c"
    using assms(2,3) by (intro shareReady_cong) (simp_all add: setProperty_other setProperty_fresh)
  with assms(1) show ?thesis by simp
qed

lemma shareReady_locale:
  assumes "shareReady h l c" and "loc \<noteq> ''__proto__''"
  shows "shareReady (setProperty l loc v h) l c"
proof -
  from assms(1) obtain ol where ol: "objects h l = Some ol" and lc: "l \<noteq> c"
    by (auto simp: shareReady_def split: option.splits)
  have "objects (setProperty l loc v h) l = Some (ol\<lparr>own := (own ol)(loc \<mapsto> v)\<rparr>)"
    using assms(2) ol by (rule setProperty_plain)
  moreover have "objects (setProperty l loc v h) c = objects h c"
    using lc by (simp add: setProperty_other)
  ultimately show ?thesis
    using assms ol by (simp add: shareReady_def setProperty_fresh)
qed

lemma shareReady_component:
  assumes "shareReady h l c"
  shows "shareReady (setProperty c i (Object l) h) l c"
proof -
  from assms obtain oc where oc: "objects h c = Some oc" and lc: "l \<noteq> c"
    by (auto simp: shareReady_def split: option.splits)
  have "objects (setProperty c i (Object l) h) l = objects h l"
    using lc by (simp add: setProperty_other)
  then show ?thesis
    using assms oc
    by (simp add: shareReady_def setProperty_fresh setProperty_component [OF assms oc])
qed



lemma groupEntry_shareReady:
  assumes "shareReady h l c" and "t \<noteq> l" and "t \<noteq> c" and "loc \<noteq> ''__proto__''"
  shows "shareReady (groupEntry t l c loc e h) l c"
  unfolding groupEntry_def Let_def
  by (intro shareReady_component shareReady_locale shareReady_translate assms)







lemma groupEntries_shareReady:
  assumes "t \<noteq> l" and "t \<noteq> c" and "loc \<noteq> ''__proto__''"
  shows "shareReady h l c \<Longrightarrow> shareReady (fold (groupEntry t l c loc) fo h) l c"
proof (induction fo arbitrary: h)
  case Nil
  then show ?case by simp
next
  case (Cons e fo)
  from Cons.prems have "shareReady (groupEntry t l c loc e h) l c"
    using assms by (rule groupEntry_shareReady)
  then show ?case using Cons.IH by simp
qed



















lemma idOfKey_examples:
  "idOfKey ''servicesgroup.a.name'' = ''a''"
  "idOfKey ''servicesgroup.b.description'' = ''b''"
  "idOfKey ''servicesgroup.a.title'' = ''a''"
  "idOfKey ''servicesgroup.c.name'' = ''c''"
  "idOfKey ''servicesgroup.__proto__.name'' = ''__proto__''"
  "idOfKey ''servicesgroup.a.__proto__'' = ''a''"
  by (simp_all add: idOfKey_def element_def)

lemma signOfKey_examples:
  "signOfKey ''servicesgroup.a.name'' = ''name''"
  "signOfKey ''servicesgroup.b.description'' = ''description''"
  "signOfKey ''servicesgroup.a.title'' = ''title''"
  "signOfKey ''servicesgroup.c.name'' = ''name''"
  "signOfKey ''servicesgroup.__proto__.name'' = ''name''"
  "signOfKey ''servicesgroup.a.__proto__'' = ''__proto__''"
  by (simp_all add: signOfKey_def element_def)

lemmas group_eval = groupFileContentByTranslations_def groupFileObject_def newObject_def
  groupEntry_def setProperty_def setterReached_def setPrototype_def objectAssign_def
  propertyAt_def idOfKey_examples signOfKey_examples




lemma proto_sanity:
  "propertyAt (snd (groupFileContentByTranslations
        [[(''servicesgroup.a.name'', JStr ''A'')]] ''en'')) 0 ''a'' = Some (Object 2)"
  "propertyAt (snd (groupFileContentByTranslations
        [[(''servicesgroup.a.name'', JStr ''A'')]] ''en'')) 2 ''en'' = Some (Object 1)"
  "propertyAt (snd (groupFileContentByTranslations
        [[(''servicesgroup.a.name'', JStr ''A'')]] ''en'')) 1 ''name'' = Some (Value (JStr ''A''))"
  by (simp_all add: group_eval)









end
